theory Spec2Isabelle
  imports Complex_Main
begin

section \<open>The bubble chart: constants and data\<close>

text \<open>
  The chart lives in the closure \<^verbatim>\<open>bubbleChart()\<close>. Its sizing constants are
  closure variables that are assigned once and never written again; JavaScript numbers are
  modelled as reals.
\<close>

definition width :: real where
  "width = 940"

definition height :: real where
  "height = 600"

record point =
  pt_x :: real
  pt_y :: real

definition center :: point where
  "center = \<lparr>pt_x = width / 3, pt_y = height / 2\<rparr>"

definition radius :: real where
  "radius = 22"

definition forceStrength :: real where
  "forceStrength = 1 / 2"

text \<open>
  Values as \<^verbatim>\<open>res.json()\<close> can deliver them, plus \<^verbatim>\<open>undefined\<close>, which a read of
  a missing property yields. An object is the association list of its own properties.
\<close>

datatype jsval =
    JUndefined
  | JNull
  | JBool bool
  | JNum real
  | JStr string
  | JArr "jsval list"
  | JObj "(string \<times> jsval) list"

datatype error = TypeError | SyntaxError | Rejected string

text \<open>
  A node as \<^verbatim>\<open>createNodes\<close> builds it. The fields copied from the raw record keep
  whatever value the record had.
\<close>

record node =
  nd_id :: jsval
  nd_radius :: real
  nd_name :: jsval
  nd_theme :: jsval
  nd_tag :: jsval
  nd_x :: real
  nd_y :: real

subsection \<open>The charge of a node\<close>

text \<open>
  \<^verbatim>\<open>function charge(d) { return -Math.pow(d.radius, 2.0) * forceStrength; }\<close>
  reads the closure variable \<^verbatim>\<open>forceStrength\<close> when it is called; the model passes
  that variable as the first argument. The unary minus binds tighter than the product.
\<close>

definition charge :: "real \<Rightarrow> node \<Rightarrow> real" where
  "charge strength d = (- ((nd_radius d) ^ 2)) * strength"

subsection \<open>Building the nodes\<close>

text \<open>
  A property read \<^verbatim>\<open>d.k\<close> on a value other than \<^verbatim>\<open>null\<close> and \<^verbatim>\<open>undefined\<close>:
  an object gives its own property or \<^verbatim>\<open>undefined\<close>; a boolean, number, string or
  array has none of the four properties that are read here (id, name, theme, tag), so
  the read gives \<^verbatim>\<open>undefined\<close>.
\<close>

fun field :: "jsval \<Rightarrow> string \<Rightarrow> jsval" where
  "field (JObj kvs) k = (case map_of kvs k of Some v \<Rightarrow> v | None \<Rightarrow> JUndefined)"
| "field _ k = JUndefined"

fun is_record :: "jsval \<Rightarrow> bool" where
  "is_record (JObj kvs) = True"
| "is_record _ = False"

text \<open>
  The callback of \<^verbatim>\<open>rawData.map\<close>. Reading \<^verbatim>\<open>d.id\<close> throws a TypeError when d is
  \<^verbatim>\<open>null\<close> or \<^verbatim>\<open>undefined\<close>, before any random number is drawn. The two results of
  \<^verbatim>\<open>Math.random()\<close> are the arguments u and v.
\<close>

definition node_of :: "real \<Rightarrow> real \<Rightarrow> jsval \<Rightarrow> error + node" where
  "node_of u v d =
     (case d of
        JUndefined \<Rightarrow> Inl TypeError
      | JNull \<Rightarrow> Inl TypeError
      | _ \<Rightarrow>
          Inr \<lparr>nd_id = field d ''id'',
               nd_radius = radius,
               nd_name = field d ''name'',
               nd_theme = field d ''theme'',
               nd_tag = field d ''tag'',
               nd_x = u * width,
               nd_y = v * height\<rparr>)"

text \<open>
  \<^verbatim>\<open>Math.random\<close> is a global generator: the model takes the sequence of its future
  results, \<open>rnd 0, rnd 1, ...\<close>. The map visits the elements in order, each callback
  drawing two numbers (x first, then y); an exception in a callback ends the map.
\<close>

fun map_nodes :: "(nat \<Rightarrow> real) \<Rightarrow> jsval list \<Rightarrow> error + node list" where
  "map_nodes rnd [] = Inr []"
| "map_nodes rnd (d # ds) =
     (case node_of (rnd 0) (rnd 1) d of
        Inl e \<Rightarrow> Inl e
      | Inr n \<Rightarrow>
          (case map_nodes (\<lambda>i. rnd (i + 2)) ds of
             Inl e \<Rightarrow> Inl e
           | Inr ns \<Rightarrow> Inr (n # ns)))"

text \<open>
  \<^verbatim>\<open>createNodes(rawData)\<close>: only an array has a \<^verbatim>\<open>map\<close> method; on \<^verbatim>\<open>null\<close> the
  read of \<^verbatim>\<open>rawData.map\<close> throws, and on any other decoded value \<^verbatim>\<open>rawData.map\<close> is
  not a function, so the call throws a TypeError as well.
\<close>

definition createNodes :: "(nat \<Rightarrow> real) \<Rightarrow> jsval \<Rightarrow> error + node list" where
  "createNodes rnd rawData =
     (case rawData of
        JArr ds \<Rightarrow> map_nodes rnd ds
      | _ \<Rightarrow> Inl TypeError)"

section \<open>The fill colour scale\<close>

text \<open>
  \<^verbatim>\<open>d3.scaleOrdinal().domain([...]).range([...])\<close>: the two arrays are the repository's,
  the scale is the d3 library's. An ordinal scale of d3 with no \<^verbatim>\<open>unknown\<close> value set
  keeps an index of the keys of its domain; a lookup of a key that is not in the domain
  appends the key to the domain, and every lookup returns the range entry at the key's
  position in the domain, taken modulo the length of the range. The scale is therefore a
  piece of state: the model takes the current domain and returns the colour and the
  domain after the lookup. The model compares keys as values. For strings, which is what
  the categories of the data and of the domain are, that is the comparison of the
  library in every version (by string form up to version 5, by primitive value since
  version 6). For other values the versions of the library differ from each other and
  from a comparison by value; what is proved about the scale is stated for string keys,
  in states of the scale that hold string keys only.
\<close>

definition fill_domain :: "jsval list" where
  "fill_domain = [JStr ''groei'', JStr ''onderneming'', JStr ''voeding'', JStr ''financieel'']"

definition fill_range :: "string list" where
  "fill_range = [''#ffca3a'', ''#3ddc97'', ''#8ac926'', ''#ff4f78'']"

fun index_of :: "jsval list \<Rightarrow> jsval \<Rightarrow> nat option" where
  "index_of [] k = None"
| "index_of (d # ds) k = (if d = k then Some 0 else map_option Suc (index_of ds k))"

definition fillColor :: "jsval list \<Rightarrow> jsval \<Rightarrow> string \<times> jsval list" where
  "fillColor dmn d =
     (case index_of dmn d of
        Some i \<Rightarrow> (fill_range ! (i mod length fill_range), dmn)
      | None \<Rightarrow> (fill_range ! (length dmn mod length fill_range), dmn @ [d]))"

text \<open>One lookup per element, in order, as \<^verbatim>\<open>selection.attr(name, function)\<close> makes them.\<close>

fun scale_each :: "jsval list \<Rightarrow> jsval list \<Rightarrow> string list \<times> jsval list" where
  "scale_each dmn [] = ([], dmn)"
| "scale_each dmn (k # ks) =
     (case fillColor dmn k of
        (c, dmn1) \<Rightarrow> (case scale_each dmn1 ks of (cs, dmn2) \<Rightarrow> (c # cs, dmn2)))"

section \<open>The force simulation\<close>

text \<open>
  The simulation object is d3's; the repository configures it. The model keeps what the
  chart sets and reads: the cooling scalar alpha, whether the timer that steps the
  simulation is running, the velocity decay, the named forces, the node array and the
  number of step notifications sent. A force is recorded by its kind and parameters.
\<close>

datatype force =
    ForceX real real
  | ForceY real real
  | ForceManyBody "node \<Rightarrow> real"

record simulation =
  alpha :: real
  running :: bool
  velocityDecay :: real
  forces :: "string \<rightharpoonup> force"
  sim_nodes :: "node list"
  ticks :: nat

text \<open>
  Modelled from the spec: the engine operations of section 4.1 (the d3 library is not
  part of the repository's sources). \<^verbatim>\<open>d3.forceSimulation()\<close> gives a simulation with
  alpha 1, no forces and no nodes, whose timer is started (the source says so at its
  \<^verbatim>\<open>simulation.stop()\<close>); 0.4 is the library's velocity decay before the chart sets its
  own. \<open>set_force\<close> registers or replaces a named force, \<open>set_alpha\<close> assigns alpha,
  \<open>restart\<close> resumes stepping, \<open>stop\<close> halts it and \<open>set_nodes\<close> replaces the node array.
  The chart calls \<open>groupBubbles\<close>, which restarts unconditionally, right after
  \<open>set_nodes\<close>, so a restart by \<open>set_nodes\<close> itself would change no state that is
  modelled here and is left out.
\<close>

definition forceSimulation :: simulation where
  "forceSimulation =
     \<lparr>alpha = 1, running = True, velocityDecay = 2 / 5, forces = Map.empty,
      sim_nodes = [], ticks = 0\<rparr>"

definition set_velocityDecay :: "real \<Rightarrow> simulation \<Rightarrow> simulation" where
  "set_velocityDecay v s = s\<lparr>velocityDecay := v\<rparr>"

definition set_force :: "string \<Rightarrow> force \<Rightarrow> simulation \<Rightarrow> simulation" where
  "set_force name f s = s\<lparr>forces := (forces s)(name \<mapsto> f)\<rparr>"

definition set_alpha :: "real \<Rightarrow> simulation \<Rightarrow> simulation" where
  "set_alpha a s = s\<lparr>alpha := a\<rparr>"

definition restart :: "simulation \<Rightarrow> simulation" where
  "restart s = s\<lparr>running := True\<rparr>"

definition stop :: "simulation \<Rightarrow> simulation" where
  "stop s = s\<lparr>running := False\<rparr>"

definition set_nodes :: "node list \<Rightarrow> simulation \<Rightarrow> simulation" where
  "set_nodes ns s = s\<lparr>sim_nodes := ns\<rparr>"

text \<open>
  The closure variable \<^verbatim>\<open>simulation\<close> after the statements of lines 40 to 49: the
  velocity decay, the three forces, and the stop. (The registration of \<^verbatim>\<open>ticked\<close>, which
  copies the nodes' positions to the elements after every step, is not modelled.)
\<close>

definition simulation :: simulation where
  "simulation =
     stop
       (set_force ''charge'' (ForceManyBody (charge forceStrength))
         (set_force ''y'' (ForceY forceStrength (pt_y center))
           (set_force ''x'' (ForceX forceStrength (pt_x center))
             (set_velocityDecay (1 / 5) forceSimulation))))"

text \<open>\<^verbatim>\<open>groupBubbles()\<close>: the x force is set again, then \<^verbatim>\<open>alpha(1).restart()\<close>.\<close>

definition groupBubbles :: "simulation \<Rightarrow> simulation" where
  "groupBubbles s =
     restart (set_alpha 1 (set_force ''x'' (ForceX forceStrength (pt_x center)) s))"

text \<open>
  Modelled from the spec: one step of the engine (section 4.1, steps 1 to 6). The
  timer runs a step only while the simulation is running. The step moves the nodes
  (\<open>advance\<close> stands for the accumulation of the forces, the damping and the integration
  of steps 1 to 3), multiplies alpha by a fixed rate, sends the step notification, and
  stops the timer once alpha is below the minimum. The rate and the minimum are
  configuration, as the spec asks.
\<close>

record engine_config =
  alphaMin :: real
  alphaRate :: real

definition sim_step ::
  "engine_config \<Rightarrow> (simulation \<Rightarrow> node list) \<Rightarrow> simulation \<Rightarrow> simulation" where
  "sim_step cfg advance s =
     (if running s then
        s\<lparr>sim_nodes := advance s,
          alpha := alpha s * alphaRate cfg,
          ticks := Suc (ticks s),
          running := \<not> (alpha s * alphaRate cfg < alphaMin cfg)\<rparr>
      else s)"

fun run :: "engine_config \<Rightarrow> (simulation \<Rightarrow> node list) \<Rightarrow> nat \<Rightarrow> simulation \<Rightarrow> simulation" where
  "run cfg advance 0 s = s"
| "run cfg advance (Suc n) s = sim_step cfg advance (run cfg advance n s)"

section \<open>The chart\<close>

text \<open>
  The elements that \<^verbatim>\<open>chart\<close> creates: for every entering node a group with a circle
  and a text. The record keeps the datum bound to the group, the radius, fill, stroke
  and stroke width of the circle, and the content and fill opacity of the text (the
  class of the group, the font size, which depends on the rendered length of the label,
  and the \<^verbatim>\<open>dy\<close> offset are left out). The stroke is the darker shade of a colour, kept
  symbolically.
\<close>

record svg_el =
  svg_width :: real
  svg_height :: real

datatype paint = Darker string

record bubble =
  datum :: node
  circle_r :: real
  circle_fill :: string
  circle_stroke :: paint
  circle_stroke_width :: real
  text_content :: jsval
  text_fill_opacity :: real

text \<open>
  A transition of d3 on an attribute runs from the value the attribute has when the
  transition starts to the target value, over its duration in milliseconds.
\<close>

record transition =
  tr_bubble :: nat
  tr_attr :: string
  tr_from :: real
  tr_to :: real
  tr_duration :: nat

text \<open>The state of the closure: its variables, the scale's domain and the transitions scheduled.\<close>

record chart_state =
  nodes :: "node list"
  svg :: "svg_el option"
  bubbles :: "bubble list option"
  transitions :: "transition list"
  fill_dom :: "jsval list"
  sim :: simulation

definition bubbleChart :: chart_state where
  "bubbleChart =
     \<lparr>nodes = [], svg = None, bubbles = None, transitions = [],
      fill_dom = fill_domain, sim = simulation\<rparr>"

text \<open>
  \<^verbatim>\<open>chart(selector, rawData)\<close>. \<open>doc\<close> says which selectors match an element of the
  document: \<^verbatim>\<open>d3.select\<close> of a selector that matches nothing gives an empty selection,
  and then no element is created. The svg is new, so it holds no \<^verbatim>\<open>.bubble\<close> yet and
  every node enters. The fill is looked up for all circles, then the stroke for all
  circles. An exception of \<^verbatim>\<open>createNodes\<close> leaves the closure as it was.
\<close>

definition chart ::
  "(string \<Rightarrow> bool) \<Rightarrow> (nat \<Rightarrow> real) \<Rightarrow> string \<Rightarrow> jsval \<Rightarrow> chart_state \<Rightarrow> error + chart_state" where
  "chart doc rnd selector rawData st =
     (case createNodes rnd rawData of
        Inl e \<Rightarrow> Inl e
      | Inr ns \<Rightarrow>
          (let entering = (if doc selector then ns else []);
               fills = scale_each (fill_dom st) (map nd_theme entering);
               strokes = scale_each (snd fills) (map nd_theme entering);
               bubblesE =
                 map (\<lambda>(d, f, s).
                        \<lparr>datum = d, circle_r = 10, circle_fill = f, circle_stroke = Darker s,
                         circle_stroke_width = 2, text_content = nd_name d,
                         text_fill_opacity = 0\<rparr>)
                   (zip entering (zip (fst fills) (fst strokes)));
               grow =
                 map (\<lambda>(i, b).
                        \<lparr>tr_bubble = i, tr_attr = ''r'', tr_from = circle_r b,
                         tr_to = nd_radius (datum b), tr_duration = 2000\<rparr>)
                   (enumerate 0 bubblesE);
               fade =
                 map (\<lambda>(i, b).
                        \<lparr>tr_bubble = i, tr_attr = ''fill-opacity'',
                         tr_from = text_fill_opacity b, tr_to = 1, tr_duration = 2000\<rparr>)
                   (enumerate 0 bubblesE)
           in Inr (st\<lparr>nodes := ns,
                      svg := (if doc selector
                              then Some \<lparr>svg_width = width, svg_height = height\<rparr> else None),
                      bubbles := Some bubblesE,
                      transitions := transitions st @ grow @ fade,
                      fill_dom := snd strokes,
                      sim := groupBubbles (set_nodes ns (sim st))\<rparr>)))"

section \<open>Loading the data\<close>

text \<open>
  The asynchronous function at the end of the file awaits the fetch, awaits the decoding
  and calls the chart, all inside one \<^verbatim>\<open>try\<close>; the \<^verbatim>\<open>catch\<close> logs the error. \<open>fetch\<close>
  and \<open>json\<close> are the environment: each either rejects with an error or resolves. The
  model returns what happened, in order, and the closure's state at the end.
\<close>

datatype event =
    Fetch string
  | Json
  | Chart string jsval
  | ConsoleError error

definition main ::
  "(string \<Rightarrow> error + 'r) \<Rightarrow> ('r \<Rightarrow> error + jsval) \<Rightarrow> (string \<Rightarrow> bool) \<Rightarrow> (nat \<Rightarrow> real)
     \<Rightarrow> event list \<times> chart_state" where
  "main fetch json doc rnd =
     (case fetch ''./data/data.json'' of
        Inl err \<Rightarrow> ([Fetch ''./data/data.json'', ConsoleError err], bubbleChart)
      | Inr res \<Rightarrow>
          (case json res of
             Inl err \<Rightarrow> ([Fetch ''./data/data.json'', Json, ConsoleError err], bubbleChart)
           | Inr data \<Rightarrow>
               (case chart doc rnd ''body'' data bubbleChart of
                  Inl err \<Rightarrow>
                    ([Fetch ''./data/data.json'', Json, Chart ''body'' data, ConsoleError err],
                     bubbleChart)
                | Inr st \<Rightarrow> ([Fetch ''./data/data.json'', Json, Chart ''body'' data], st))))"

fun fetches :: "event list \<Rightarrow> string list" where
  "fetches [] = []"
| "fetches (Fetch url # es) = url # fetches es"
| "fetches (_ # es) = fetches es"

fun chart_calls :: "event list \<Rightarrow> (string \<times> jsval) list" where
  "chart_calls [] = []"
| "chart_calls (Chart selector data # es) = (selector, data) # chart_calls es"
| "chart_calls (_ # es) = chart_calls es"

fun console_errors :: "event list \<Rightarrow> error list" where
  "console_errors [] = []"
| "console_errors (ConsoleError err # es) = err # console_errors es"
| "console_errors (_ # es) = console_errors es"

section \<open>Sample inputs\<close>

text \<open>Concrete inputs on which the theorems below are instantiated.\<close>

definition sample_draws :: "nat \<Rightarrow> real" where
  "sample_draws i = (if even i then 1 / 4 else 3 / 4)"

definition sample_data :: "jsval list" where
  "sample_data =
     [JObj [(''id'', JNum 1), (''name'', JStr ''sparen''), (''theme'', JStr ''financieel''),
            (''tag'', JStr ''geld''), (''radius'', JNum 99)],
      JObj [(''id'', JStr ''b2''), (''name'', JStr ''bakken''), (''theme'', JStr ''voeding'')]]"

definition sample_config :: engine_config where
  "sample_config = \<lparr>alphaMin = 1 / 1000, alphaRate = 1 / 2\<rparr>"

section \<open>Theorems\<close>

text \<open>
  C1. For every node d and every value of forceStrength, the charge of d is
  \<open>- (forceStrength * radius\<^sup>2)\<close>, in particular with the chart's own forceStrength;
  for the radii 10, 22, 50 and the strengths 0, 0.5, 1 the nine values are
  0, -50, -100, 0, -242, -484, 0, -1250, -2500.
\<close>

theorem charge_value:
  "charge s d = - (s * (nd_radius d)\<^sup>2)
   \<and> charge forceStrength d = - (forceStrength * (nd_radius d)\<^sup>2)
   \<and> [charge s' (d\<lparr>nd_radius := r\<rparr>). r \<leftarrow> [10, 22, 50], s' \<leftarrow> [0, 1 / 2, 1]]
       = [0, - 50, - 100, 0, - 242, - 484, 0, - 1250, - 2500]"
  by (simp add: charge_def)

subsection \<open>Nodes\<close>

lemma node_of_record:
  "is_record d \<Longrightarrow> node_of u v d =
     Inr \<lparr>nd_id = field d ''id'', nd_radius = radius, nd_name = field d ''name'',
          nd_theme = field d ''theme'', nd_tag = field d ''tag'',
          nd_x = u * width, nd_y = v * height\<rparr>"
  by (cases d) (simp_all add: node_of_def)

lemma node_of_radius: "node_of u v d = Inr n \<Longrightarrow> nd_radius n = radius"
  by (cases d) (auto simp: node_of_def)

lemma map_nodes_radius:
  "map_nodes rnd ds = Inr ns \<Longrightarrow> n \<in> set ns \<Longrightarrow> nd_radius n = radius"
proof (induction ds arbitrary: rnd ns)
  case Nil
  then show ?case by simp
next
  case (Cons d ds)
  then show ?case
    by (auto split: sum.splits dest: node_of_radius)
qed

lemma map_nodes_length:
  "map_nodes rnd ds = Inr ns \<Longrightarrow> length ns = length ds"
  by (induction ds arbitrary: rnd ns) (auto split: sum.splits)

lemma map_nodes_records:
  "\<forall>d \<in> set ds. is_record d \<Longrightarrow>
   map_nodes rnd ds =
     Inr (map (\<lambda>i. \<lparr>nd_id = field (ds ! i) ''id'', nd_radius = radius,
                     nd_name = field (ds ! i) ''name'', nd_theme = field (ds ! i) ''theme'',
                     nd_tag = field (ds ! i) ''tag'',
                     nd_x = rnd (2 * i) * width, nd_y = rnd (2 * i + 1) * height\<rparr>)
            [0 ..< length ds])"
proof (induction ds arbitrary: rnd)
  case Nil
  then show ?case by simp
next
  case (Cons d ds)
  have d: "is_record d" and ds: "\<forall>d \<in> set ds. is_record d"
    using Cons.prems by simp_all
  show ?case
    unfolding map_nodes.simps node_of_record [OF d] Cons.IH [OF ds]
    by (simp add: upt_conv_Cons map_Suc_upt [symmetric] del: upt_Suc)
qed

text \<open>
  C4. For an array of records (objects) and random draws in [0, 1), createNodes returns
  one node per record, in order; each node carries the record's id, name, theme and tag
  as a read of the record gives them, and its position is the two draws scaled by the
  width and the height, so that 0 <= x < width and 0 <= y < height.
\<close>

theorem createNodes_one_node_per_record:
  assumes "\<forall>i. 0 \<le> rnd i \<and> rnd i < 1" and "\<forall>d \<in> set ds. is_record d"
  shows "\<exists>ns. createNodes rnd (JArr ds) = Inr ns \<and> length ns = length ds \<and>
           (\<forall>i < length ds.
              nd_id (ns ! i) = field (ds ! i) ''id'' \<and>
              nd_name (ns ! i) = field (ds ! i) ''name'' \<and>
              nd_theme (ns ! i) = field (ds ! i) ''theme'' \<and>
              nd_tag (ns ! i) = field (ds ! i) ''tag'' \<and>
              nd_x (ns ! i) = rnd (2 * i) * width \<and>
              nd_y (ns ! i) = rnd (2 * i + 1) * height \<and>
              0 \<le> nd_x (ns ! i) \<and> nd_x (ns ! i) < width \<and>
              0 \<le> nd_y (ns ! i) \<and> nd_y (ns ! i) < height)"
proof -
  have w: "0 \<le> rnd k * width \<and> rnd k * width < width" for k
    using assms(1) [rule_format, of k] by (simp add: width_def)
  have h: "0 \<le> rnd k * height \<and> rnd k * height < height" for k
    using assms(1) [rule_format, of k] by (simp add: height_def)
  show ?thesis
    unfolding createNodes_def jsval.case map_nodes_records [OF assms(2)]
    using w h by simp
qed

theorem createNodes_one_node_per_record_witness:
  "\<exists>ns. createNodes sample_draws (JArr sample_data) = Inr ns \<and> length ns = length sample_data \<and>
           (\<forall>i < length sample_data.
              nd_id (ns ! i) = field (sample_data ! i) ''id'' \<and>
              nd_name (ns ! i) = field (sample_data ! i) ''name'' \<and>
              nd_theme (ns ! i) = field (sample_data ! i) ''theme'' \<and>
              nd_tag (ns ! i) = field (sample_data ! i) ''tag'' \<and>
              nd_x (ns ! i) = sample_draws (2 * i) * width \<and>
              nd_y (ns ! i) = sample_draws (2 * i + 1) * height \<and>
              0 \<le> nd_x (ns ! i) \<and> nd_x (ns ! i) < width \<and>
              0 \<le> nd_y (ns ! i) \<and> nd_y (ns ! i) < height)"
proof -
  have r: "\<forall>i. 0 \<le> sample_draws i \<and> sample_draws i < 1"
    by (simp add: sample_draws_def)
  have d: "\<forall>d \<in> set sample_data. is_record d"
    by (simp add: sample_data_def)
  show ?thesis
    by (rule createNodes_one_node_per_record [OF r d])
qed

text \<open>
  C9. Every node that createNodes returns has the radius 22 of the closure, whatever the
  raw record holds (a radius property of the record is never read); the radius is positive.
\<close>

theorem createNodes_radius:
  assumes "createNodes rnd rawData = Inr ns" and "n \<in> set ns"
  shows "nd_radius n = 22 \<and> nd_radius n = radius \<and> 0 < nd_radius n"
proof -
  obtain ds where "rawData = JArr ds" and "map_nodes rnd ds = Inr ns"
    using assms(1) by (cases rawData) (simp_all add: createNodes_def)
  then have "nd_radius n = radius"
    using assms(2) map_nodes_radius by blast
  then show ?thesis by (simp add: radius_def)
qed

theorem createNodes_radius_witness:
  "createNodes sample_draws (JArr [JObj [(''name'', JStr ''groot''), (''radius'', JNum 99)]])
     = Inr [\<lparr>nd_id = JUndefined, nd_radius = 22, nd_name = JStr ''groot'',
              nd_theme = JUndefined, nd_tag = JUndefined, nd_x = 235, nd_y = 450\<rparr>]
   \<and> nd_radius \<lparr>nd_id = JUndefined, nd_radius = 22, nd_name = JStr ''groot'',
              nd_theme = JUndefined, nd_tag = JUndefined, nd_x = 235, nd_y = 450\<rparr> = 22"
proof -
  have c: "createNodes sample_draws (JArr [JObj [(''name'', JStr ''groot''), (''radius'', JNum 99)]])
     = Inr [\<lparr>nd_id = JUndefined, nd_radius = 22, nd_name = JStr ''groot'',
              nd_theme = JUndefined, nd_tag = JUndefined, nd_x = 235, nd_y = 450\<rparr>]"
    by (simp add: createNodes_def node_of_def sample_draws_def radius_def width_def height_def)
  have m: "\<lparr>nd_id = JUndefined, nd_radius = 22, nd_name = JStr ''groot'',
              nd_theme = JUndefined, nd_tag = JUndefined, nd_x = 235, nd_y = 450\<rparr>
           \<in> set [\<lparr>nd_id = JUndefined, nd_radius = 22, nd_name = JStr ''groot'',
              nd_theme = JUndefined, nd_tag = JUndefined, nd_x = 235, nd_y = 450\<rparr>]"
    by simp
  from createNodes_radius [OF c m] c show ?thesis by blast
qed

subsection \<open>The entrance animation\<close>

lemma sample_nodes:
  "createNodes sample_draws (JArr sample_data) =
     Inr [\<lparr>nd_id = JNum 1, nd_radius = 22, nd_name = JStr ''sparen'',
            nd_theme = JStr ''financieel'', nd_tag = JStr ''geld'', nd_x = 235, nd_y = 450\<rparr>,
          \<lparr>nd_id = JStr ''b2'', nd_radius = 22, nd_name = JStr ''bakken'',
            nd_theme = JStr ''voeding'', nd_tag = JUndefined, nd_x = 235, nd_y = 450\<rparr>]"
  by (simp add: createNodes_def sample_data_def node_of_def sample_draws_def radius_def
      width_def height_def)

text \<open>
  C2. The claim is that the entrance animation of every created circle grows the radius
  attribute from 0 to the node's radius, and that the label's opacity fades from 0 to 1
  over the same duration. On the two sample records the chart creates both circles with
  the radius attribute 10, so the transitions of the radius run from 10 to 22; the
  opacity of the labels does run from 0 to 1, and all four transitions last 2000 ms.
\<close>

theorem chart_entrance_starts_at_ten:
  "\<exists>st. chart (\<lambda>s. s = ''body'') sample_draws ''body'' (JArr sample_data) bubbleChart = Inr st
     \<and> map_option (map circle_r) (bubbles st) = Some [10, 10]
     \<and> map_option (map text_fill_opacity) (bubbles st) = Some [0, 0]
     \<and> map_option (map circle_fill) (bubbles st) = Some [''#ff4f78'', ''#8ac926'']
     \<and> transitions st =
         [\<lparr>tr_bubble = 0, tr_attr = ''r'', tr_from = 10, tr_to = 22, tr_duration = 2000\<rparr>,
          \<lparr>tr_bubble = 1, tr_attr = ''r'', tr_from = 10, tr_to = 22, tr_duration = 2000\<rparr>,
          \<lparr>tr_bubble = 0, tr_attr = ''fill-opacity'', tr_from = 0, tr_to = 1,
            tr_duration = 2000\<rparr>,
          \<lparr>tr_bubble = 1, tr_attr = ''fill-opacity'', tr_from = 0, tr_to = 1,
            tr_duration = 2000\<rparr>]"
  by (simp add: chart_def sample_nodes Let_def bubbleChart_def fillColor_def fill_domain_def
      fill_range_def enumerate_eq_zip upt_rec)

subsection \<open>The grouped layout\<close>

lemma groupBubbles_unfold:
  "groupBubbles s =
     s\<lparr>forces := (forces s)(''x'' \<mapsto> ForceX forceStrength (pt_x center)),
       alpha := 1, running := True\<rparr>"
  by (simp add: groupBubbles_def restart_def set_alpha_def set_force_def)

text \<open>
  C3. After groupBubbles the x force of the simulation is the force of strength
  forceStrength towards the x coordinate of the one shared centre, alpha is 1 and the
  simulation is stepping. groupBubbles is a total function of the simulation (none of
  its three calls has a failing branch), a second call in succession again leaves alpha
  at 1 and the simulation stepping, and gives the same simulation as one call, from
  whatever alpha and stepping state the first call started.
\<close>

theorem groupBubbles_twice:
  "alpha (groupBubbles s) = 1
   \<and> running (groupBubbles s)
   \<and> forces (groupBubbles s) ''x'' = Some (ForceX forceStrength (pt_x center))
   \<and> alpha (groupBubbles (groupBubbles s)) = 1
   \<and> running (groupBubbles (groupBubbles s))
   \<and> forces (groupBubbles (groupBubbles s)) ''x'' = Some (ForceX forceStrength (pt_x center))
   \<and> groupBubbles (groupBubbles s) = groupBubbles s
   \<and> groupBubbles (groupBubbles (s\<lparr>alpha := a, running := False\<rparr>)) = groupBubbles s"
  by (simp add: groupBubbles_unfold)

lemma simulation_unfold:
  "simulation =
     \<lparr>alpha = 1, running = False, velocityDecay = 1 / 5,
      forces = [''x'' \<mapsto> ForceX (1 / 2) (940 / 3), ''y'' \<mapsto> ForceY (1 / 2) 300,
                ''charge'' \<mapsto> ForceManyBody (charge (1 / 2))],
      sim_nodes = [], ticks = 0\<rparr>"
  by (simp add: simulation_def stop_def set_force_def set_velocityDecay_def
      forceSimulation_def forceStrength_def center_def width_def height_def)

text \<open>
  C6, as stated: the x force registered with the simulation pulls towards x = 313.
  It does not: the x coordinate of the centre is not 313, and the force that the
  construction registers under the name x is not the force with target 313.
\<close>

theorem center_target_counterexample:
  "pt_x center \<noteq> 313 \<and> forces simulation ''x'' \<noteq> Some (ForceX forceStrength 313)"
  by (simp add: simulation_unfold center_def width_def)

text \<open>
  C6, amended. The x force registered with the simulation pulls towards
  x = width / 3 = 940 / 3 (between 313 and 314), the y force towards
  y = height / 2 = 300, both with strength forceStrength.
\<close>

theorem center_target:
  "forces simulation ''x'' = Some (ForceX forceStrength (940 / 3))
   \<and> forces simulation ''y'' = Some (ForceY forceStrength 300)
   \<and> pt_x center = 940 / 3 \<and> pt_y center = 300
   \<and> 313 < pt_x center \<and> pt_x center < 314"
  by (simp add: simulation_unfold forceStrength_def center_def width_def height_def)

text \<open>
  C10. The x force that groupBubbles installs is the x force registered at the
  construction of the simulation (same strength, same target). Hence on a simulation
  that still carries that force, groupBubbles changes nothing but alpha, which becomes
  1, and the stepping, which is resumed.
\<close>

theorem groupBubbles_same_force:
  "forces (groupBubbles s) ''x'' = forces simulation ''x''
   \<and> (forces s ''x'' = forces simulation ''x'' \<longrightarrow>
        groupBubbles s = s\<lparr>alpha := 1, running := True\<rparr>)"
proof -
  have x: "forces simulation ''x'' = Some (ForceX forceStrength (pt_x center))"
    by (simp add: simulation_def stop_def set_force_def)
  have "(forces s)(''x'' \<mapsto> ForceX forceStrength (pt_x center)) = forces s"
    if "forces s ''x'' = forces simulation ''x''"
    using that x by (simp add: map_upd_triv)
  then show ?thesis
    by (simp add: groupBubbles_unfold x)
qed

theorem groupBubbles_same_force_witness:
  "forces (set_alpha (1 / 2) (set_nodes [] simulation)) ''x'' = forces simulation ''x''
   \<and> groupBubbles (set_alpha (1 / 2) (set_nodes [] simulation))
       = (set_alpha (1 / 2) (set_nodes [] simulation))\<lparr>alpha := 1, running := True\<rparr>"
proof -
  have h: "forces (set_alpha (1 / 2) (set_nodes [] simulation)) ''x'' = forces simulation ''x''"
    by (simp add: set_alpha_def set_nodes_def)
  from groupBubbles_same_force [of "set_alpha (1 / 2) (set_nodes [] simulation)"] h
  show ?thesis by blast
qed

subsection \<open>Cooling\<close>

lemma sim_step_idle: "\<not> running s \<Longrightarrow> sim_step cfg adv s = s"
  by (simp add: sim_step_def)

lemma run_idle: "\<not> running s \<Longrightarrow> run cfg adv n s = s"
  by (induction n) (simp_all add: sim_step_idle)

lemma run_add: "run cfg adv (m + n) s = run cfg adv m (run cfg adv n s)"
  by (induction m) simp_all

lemma sim_step_running:
  "running s \<Longrightarrow>
   alpha (sim_step cfg adv s) = alpha s * alphaRate cfg
   \<and> running (sim_step cfg adv s) = (\<not> alpha s * alphaRate cfg < alphaMin cfg)
   \<and> ticks (sim_step cfg adv s) = Suc (ticks s)"
  by (simp add: sim_step_def)

lemma cooling_reaches_minimum:
  fixes r m :: real
  assumes "0 < r" "r < 1" "0 < m"
  shows "\<exists>N. 0 < N \<and> r ^ N < m \<and> (\<forall>n. 0 < n \<and> n < N \<longrightarrow> \<not> r ^ n < m)"
proof -
  obtain k where k: "r ^ k < m"
    using real_arch_pow_inv [OF assms(3) assms(2)] by blast
  have "r ^ Suc k \<le> r ^ k"
    using assms(1,2) by (simp add: mult_left_le_one_le)
  with k have ex: "0 < Suc k \<and> r ^ Suc k < m" by simp
  define N where "N = (LEAST n. 0 < n \<and> r ^ n < m)"
  have "0 < N \<and> r ^ N < m"
    unfolding N_def using ex by (rule LeastI)
  moreover have "\<not> (0 < n \<and> r ^ n < m)" if "n < N" for n
    using that unfolding N_def by (rule not_less_Least)
  ultimately show ?thesis by blast
qed

lemma run_while_running:
  assumes "alpha s = 1" "running s"
    and "\<forall>k. 0 < k \<and> k < N \<longrightarrow> \<not> (alphaRate cfg) ^ k < alphaMin cfg"
  shows "n < N \<Longrightarrow> running (run cfg adv n s) \<and> alpha (run cfg adv n s) = (alphaRate cfg) ^ n
          \<and> ticks (run cfg adv n s) = ticks s + n"
proof (induction n)
  case 0
  then show ?case using assms(1,2) by simp
next
  case (Suc n)
  then have ih: "running (run cfg adv n s)" "alpha (run cfg adv n s) = (alphaRate cfg) ^ n"
    "ticks (run cfg adv n s) = ticks s + n"
    by simp_all
  have "\<not> (alphaRate cfg) ^ Suc n < alphaMin cfg"
    using assms(3) Suc.prems by blast
  then show ?case
    using sim_step_running [OF ih(1), of cfg adv] ih(2,3) by (simp add: mult.commute)
qed

text \<open>
  C5. With a cooling rate in (0, 1) and a positive minimum: after alpha is set to 1 and
  the simulation restarted, alpha is 1 and the simulation is stepping; there is a number
  N of steps such that during the first N steps the simulation is stepping and every
  step makes alpha strictly smaller, alpha stays at or above the minimum until the N-th
  step brings it below, and from then on the simulation is not stepping: further steps
  change nothing (exactly N notifications were sent), until restart resumes the stepping.
\<close>

theorem alpha_cools_then_stops:
  assumes "0 < alphaRate cfg" "alphaRate cfg < 1" "0 < alphaMin cfg"
  shows "alpha (restart (set_alpha 1 s)) = 1
    \<and> running (restart (set_alpha 1 s))
    \<and> (\<exists>N. 0 < N
         \<and> (\<forall>n < N. running (run cfg adv n (restart (set_alpha 1 s)))
                \<and> alpha (run cfg adv (Suc n) (restart (set_alpha 1 s)))
                    < alpha (run cfg adv n (restart (set_alpha 1 s))))
         \<and> (\<forall>n < N. 0 < n \<longrightarrow> alphaMin cfg \<le> alpha (run cfg adv n (restart (set_alpha 1 s))))
         \<and> alpha (run cfg adv N (restart (set_alpha 1 s))) < alphaMin cfg
         \<and> \<not> running (run cfg adv N (restart (set_alpha 1 s)))
         \<and> (\<forall>m. run cfg adv (N + m) (restart (set_alpha 1 s))
                  = run cfg adv N (restart (set_alpha 1 s)))
         \<and> ticks (run cfg adv N (restart (set_alpha 1 s))) = ticks s + N
         \<and> running (restart (run cfg adv N (restart (set_alpha 1 s)))))"
proof -
  define s0 where "s0 = restart (set_alpha 1 s)"
  define r where "r = alphaRate cfg"
  have s0: "alpha s0 = 1" "running s0" "ticks s0 = ticks s"
    by (simp_all add: s0_def restart_def set_alpha_def)
  obtain N where N: "0 < N" "r ^ N < alphaMin cfg"
    "\<forall>k. 0 < k \<and> k < N \<longrightarrow> \<not> r ^ k < alphaMin cfg"
    using cooling_reaches_minimum [OF assms] unfolding r_def by blast
  have before: "running (run cfg adv n s0) \<and> alpha (run cfg adv n s0) = r ^ n
      \<and> ticks (run cfg adv n s0) = ticks s + n" if "n < N" for n
    using run_while_running [OF s0(1,2) N(3) [unfolded r_def] that, of adv] s0(3)
    by (simp add: r_def)
  obtain p where p: "N = Suc p"
    using N(1) by (cases N) simp_all
  have last: "running (run cfg adv p s0)" "alpha (run cfg adv p s0) = r ^ p"
    "ticks (run cfg adv p s0) = ticks s + p"
    using before [of p] p by simp_all
  have atN: "alpha (run cfg adv N s0) = r ^ N" "\<not> running (run cfg adv N s0)"
    "ticks (run cfg adv N s0) = ticks s + N"
    using sim_step_running [OF last(1), of cfg adv] last(2,3) N(2) p
    by (simp_all add: r_def mult.commute)
  have rpos: "0 < r ^ n" for n
    using assms(1) by (simp add: r_def)
  have decr: "alpha (run cfg adv (Suc n) s0) < alpha (run cfg adv n s0)" if "n < N" for n
  proof -
    have "alpha (run cfg adv (Suc n) s0) = r ^ n * r"
      using sim_step_running [of "run cfg adv n s0" cfg adv] before [OF that]
      by (simp add: r_def)
    moreover have "r ^ n * r < r ^ n"
      using rpos [of n] assms(2) by (simp add: r_def)
    ultimately show ?thesis using before [OF that] by simp
  qed
  have above: "alphaMin cfg \<le> alpha (run cfg adv n s0)" if "n < N" "0 < n" for n
    using before [OF that(1)] N(3) that by (simp add: not_less)
  have stay: "run cfg adv (N + m) s0 = run cfg adv N s0" for m
    using run_add [of cfg adv m N s0] run_idle [OF atN(2)] by (simp add: add.commute)
  have again: "running (restart (run cfg adv N s0))"
    by (simp add: restart_def)
  show ?thesis
    unfolding s0_def [symmetric]
    using s0(1,2) N(1,2) before decr above atN stay again by (intro conjI exI [of _ N]) auto
qed

theorem alpha_cools_then_stops_witness:
  "alpha (restart (set_alpha 1 simulation)) = 1
    \<and> running (restart (set_alpha 1 simulation))
    \<and> (\<exists>N. 0 < N
         \<and> (\<forall>n < N. running (run sample_config sim_nodes n (restart (set_alpha 1 simulation)))
                \<and> alpha (run sample_config sim_nodes (Suc n) (restart (set_alpha 1 simulation)))
                    < alpha (run sample_config sim_nodes n (restart (set_alpha 1 simulation))))
         \<and> (\<forall>n < N. 0 < n \<longrightarrow>
                alphaMin sample_config
                  \<le> alpha (run sample_config sim_nodes n (restart (set_alpha 1 simulation))))
         \<and> alpha (run sample_config sim_nodes N (restart (set_alpha 1 simulation)))
             < alphaMin sample_config
         \<and> \<not> running (run sample_config sim_nodes N (restart (set_alpha 1 simulation)))
         \<and> (\<forall>m. run sample_config sim_nodes (N + m) (restart (set_alpha 1 simulation))
                  = run sample_config sim_nodes N (restart (set_alpha 1 simulation)))
         \<and> ticks (run sample_config sim_nodes N (restart (set_alpha 1 simulation)))
             = ticks simulation + N
         \<and> running (restart (run sample_config sim_nodes N (restart (set_alpha 1 simulation)))))"
proof -
  have a: "0 < alphaRate sample_config" and b: "alphaRate sample_config < 1"
    and c: "0 < alphaMin sample_config"
    by (simp_all add: sample_config_def)
  show ?thesis
    by (rule alpha_cools_then_stops [OF a b c])
qed

subsection \<open>The fill colour\<close>

lemma index_of_None: "(index_of ds k = None) = (k \<notin> set ds)"
  by (induction ds) auto

lemma index_of_first: "k \<notin> set ds \<Longrightarrow> index_of (ds @ k # rest) k = Some (length ds)"
  by (induction ds) auto

lemma fillColor_new:
  "k \<notin> set dmn \<Longrightarrow>
   fillColor dmn k = (fill_range ! (length dmn mod length fill_range), dmn @ [k])"
  using index_of_None [of dmn k] by (simp add: fillColor_def)

lemma fillColor_later:
  "k \<notin> set dmn \<Longrightarrow>
   fillColor (dmn @ k # rest) k
     = (fill_range ! (length dmn mod length fill_range), dmn @ k # rest)"
  by (simp add: fillColor_def index_of_first)

lemma fillColor_fixed:
  "map (fillColor (fill_domain @ extra)) fill_domain
     = map (\<lambda>c. (c, fill_domain @ extra)) fill_range"
  by (simp add: fillColor_def fill_domain_def fill_range_def)

text \<open>
  C8, as stated: every category that is not in the domain gets one default colour.
  It does not: from the scale as constructed, the category sport, which is not in the
  domain, gets the first colour of the range, and after it the category reizen, which
  is not in the domain either, gets the second colour of the range.
\<close>

theorem fillColor_default_counterexample:
  "JStr ''sport'' \<notin> set fill_domain
   \<and> fillColor fill_domain (JStr ''sport'') = (''#ffca3a'', fill_domain @ [JStr ''sport''])
   \<and> JStr ''reizen'' \<notin> set (fill_domain @ [JStr ''sport''])
   \<and> fillColor (fill_domain @ [JStr ''sport'']) (JStr ''reizen'')
       = (''#3ddc97'', fill_domain @ [JStr ''sport'', JStr ''reizen''])
   \<and> ''#ffca3a'' \<noteq> ''#3ddc97''"
  by (simp add: fillColor_def fill_domain_def fill_range_def)

text \<open>
  C8, amended. Categories are strings. In every state of the scale (the domain as
  constructed, followed by the categories added since), the i-th category of the
  constructed domain maps to the i-th colour of the range and the lookup leaves the
  domain as it is. A category name that is not in the domain is appended to the domain
  by its first lookup and gets the colour of the range at its position in the domain
  modulo 4, which is one of the four colours of the range; every later lookup of the
  same name, whatever categories have been added after it, gives that same colour and
  leaves the domain as it is, and the four constructed categories keep their colours.
\<close>

theorem fillColor_lookup:
  assumes "JStr name \<notin> set (fill_domain @ map JStr extra)"
  shows "map (fillColor (fill_domain @ map JStr extra)) fill_domain
           = map (\<lambda>c. (c, fill_domain @ map JStr extra)) fill_range
    \<and> fillColor (fill_domain @ map JStr extra) (JStr name)
        = (fill_range ! (length (fill_domain @ map JStr extra) mod 4),
           fill_domain @ map JStr extra @ [JStr name])
    \<and> (\<forall>rest. fillColor (fill_domain @ map JStr extra @ [JStr name] @ map JStr rest) (JStr name)
        = (fill_range ! (length (fill_domain @ map JStr extra) mod 4),
           fill_domain @ map JStr extra @ [JStr name] @ map JStr rest))
    \<and> (\<forall>rest. map (fillColor (fill_domain @ map JStr extra @ [JStr name] @ map JStr rest))
                 fill_domain
        = map (\<lambda>c. (c, fill_domain @ map JStr extra @ [JStr name] @ map JStr rest)) fill_range)
    \<and> fill_range ! (length (fill_domain @ map JStr extra) mod 4) \<in> set fill_range"
proof -
  have four: "length fill_range = 4"
    by (simp add: fill_range_def)
  have mem: "fill_range ! (length (fill_domain @ map JStr extra) mod 4) \<in> set fill_range"
    using four by (intro nth_mem) simp
  have later: "fillColor (fill_domain @ map JStr extra @ [JStr name] @ map JStr rest) (JStr name)
        = (fill_range ! (length (fill_domain @ map JStr extra) mod 4),
           fill_domain @ map JStr extra @ [JStr name] @ map JStr rest)" for rest
    using fillColor_later [OF assms, of "map JStr rest"] four by simp
  have fixed: "map (fillColor (fill_domain @ map JStr extra @ [JStr name] @ map JStr rest))
                 fill_domain
        = map (\<lambda>c. (c, fill_domain @ map JStr extra @ [JStr name] @ map JStr rest)) fill_range"
    for rest
    using fillColor_fixed [of "map JStr extra @ [JStr name] @ map JStr rest"] by simp
  show ?thesis
    using fillColor_fixed [of "map JStr extra"] fillColor_new [OF assms] later fixed mem four
    by simp
qed

theorem fillColor_lookup_witness:
  "map (fillColor (fill_domain @ [JStr ''sport''])) fill_domain
           = map (\<lambda>c. (c, fill_domain @ [JStr ''sport''])) fill_range
    \<and> fillColor (fill_domain @ [JStr ''sport'']) (JStr ''reizen'')
        = (''#3ddc97'', fill_domain @ [JStr ''sport'', JStr ''reizen''])
    \<and> fillColor (fill_domain @ [JStr ''sport'', JStr ''reizen'']) (JStr ''reizen'')
        = (''#3ddc97'', fill_domain @ [JStr ''sport'', JStr ''reizen''])
    \<and> fillColor (fill_domain @ [JStr ''sport'', JStr ''reizen'', JStr ''wonen'', JStr ''zorg''])
         (JStr ''reizen'')
        = (''#3ddc97'', fill_domain @ [JStr ''sport'', JStr ''reizen'', JStr ''wonen'', JStr ''zorg''])"
proof -
  have k: "JStr ''reizen'' \<notin> set (fill_domain @ map JStr [''sport''])"
    by (simp add: fill_domain_def)
  have c: "fill_range ! (length (fill_domain @ map JStr [''sport'']) mod 4) = ''#3ddc97''"
    by (simp add: fill_domain_def fill_range_def)
  note t = fillColor_lookup [OF k, unfolded c]
  from t have a: "map (fillColor (fill_domain @ [JStr ''sport''])) fill_domain
           = map (\<lambda>c. (c, fill_domain @ [JStr ''sport''])) fill_range"
    and b: "fillColor (fill_domain @ [JStr ''sport'']) (JStr ''reizen'')
        = (''#3ddc97'', fill_domain @ [JStr ''sport'', JStr ''reizen''])"
    by simp_all
  from t have l: "fillColor (fill_domain @ map JStr [''sport''] @ [JStr ''reizen''] @ map JStr rest)
       (JStr ''reizen'')
     = (''#3ddc97'', fill_domain @ map JStr [''sport''] @ [JStr ''reizen''] @ map JStr rest)" for rest
    by blast
  from l [of "[]"] l [of "[''wonen'', ''zorg'']"] a b show ?thesis by simp
qed

subsection \<open>Loading the data\<close>

lemma chart_sample:
  "\<exists>st. chart (\<lambda>s. s = ''body'') sample_draws ''body'' (JArr sample_data) bubbleChart = Inr st
     \<and> length (nodes st) = 2 \<and> map_option length (bubbles st) = Some 2
     \<and> alpha (sim st) = 1 \<and> running (sim st)"
  by (simp add: chart_def sample_nodes Let_def bubbleChart_def groupBubbles_unfold fillColor_def
      fill_domain_def fill_range_def)

lemma chart_null:
  "chart doc rnd selector JNull st = Inl TypeError"
  by (simp add: chart_def createNodes_def)

text \<open>
  C7. If the fetch rejects, or the fetch resolves and the decoding rejects, the error is
  logged, the chart function is not called, the closure stays as constructed and the
  fetch was made once. If both resolve, the chart function is called exactly once, with
  the selector body and the decoded data, and the fetch was made once: when the chart
  returns, the state at the end is the state the chart function returns on that data and
  nothing is logged; when the chart throws, its error is logged and the closure stays
  as constructed.
\<close>

theorem main_outcomes:
  "(fetch ''./data/data.json'' = Inl err \<longrightarrow>
      main fetch json doc rnd = ([Fetch ''./data/data.json'', ConsoleError err], bubbleChart)
      \<and> chart_calls (fst (main fetch json doc rnd)) = []
      \<and> console_errors (fst (main fetch json doc rnd)) = [err]
      \<and> fetches (fst (main fetch json doc rnd)) = [''./data/data.json''])
   \<and> (fetch ''./data/data.json'' = Inr res \<and> json res = Inl err \<longrightarrow>
      main fetch json doc rnd
        = ([Fetch ''./data/data.json'', Json, ConsoleError err], bubbleChart)
      \<and> chart_calls (fst (main fetch json doc rnd)) = []
      \<and> console_errors (fst (main fetch json doc rnd)) = [err]
      \<and> fetches (fst (main fetch json doc rnd)) = [''./data/data.json''])
   \<and> (fetch ''./data/data.json'' = Inr res \<and> json res = Inr data \<longrightarrow>
      chart_calls (fst (main fetch json doc rnd)) = [(''body'', data)]
      \<and> fetches (fst (main fetch json doc rnd)) = [''./data/data.json''])
   \<and> (fetch ''./data/data.json'' = Inr res \<and> json res = Inr data
        \<and> chart doc rnd ''body'' data bubbleChart = Inr st \<longrightarrow>
      main fetch json doc rnd
        = ([Fetch ''./data/data.json'', Json, Chart ''body'' data], st)
      \<and> console_errors (fst (main fetch json doc rnd)) = [])
   \<and> (fetch ''./data/data.json'' = Inr res \<and> json res = Inr data
        \<and> chart doc rnd ''body'' data bubbleChart = Inl err \<longrightarrow>
      main fetch json doc rnd
        = ([Fetch ''./data/data.json'', Json, Chart ''body'' data, ConsoleError err],
           bubbleChart)
      \<and> console_errors (fst (main fetch json doc rnd)) = [err])"
  by (auto simp: main_def split: sum.splits)

theorem main_outcomes_witness:
  "main (\<lambda>url. Inl (Rejected ''offline'')) (\<lambda>res::string. Inr JNull) (\<lambda>s. s = ''body'') sample_draws
     = ([Fetch ''./data/data.json'', ConsoleError (Rejected ''offline'')], bubbleChart)
   \<and> main (\<lambda>url. Inr ''<html>'') (\<lambda>res. Inl SyntaxError) (\<lambda>s. s = ''body'') sample_draws
     = ([Fetch ''./data/data.json'', Json, ConsoleError SyntaxError], bubbleChart)
   \<and> chart_calls (fst (main (\<lambda>url. Inr ''[...]'') (\<lambda>res. Inr (JArr sample_data))
                          (\<lambda>s. s = ''body'') sample_draws))
     = [(''body'', JArr sample_data)]
   \<and> (\<exists>st. chart (\<lambda>s. s = ''body'') sample_draws ''body'' (JArr sample_data) bubbleChart = Inr st
         \<and> length (nodes st) = 2
         \<and> main (\<lambda>url. Inr ''[...]'') (\<lambda>res. Inr (JArr sample_data))
              (\<lambda>s. s = ''body'') sample_draws
            = ([Fetch ''./data/data.json'', Json, Chart ''body'' (JArr sample_data)], st))
   \<and> main (\<lambda>url. Inr ''null'') (\<lambda>res. Inr JNull) (\<lambda>s. s = ''body'') sample_draws
     = ([Fetch ''./data/data.json'', Json, Chart ''body'' JNull, ConsoleError TypeError],
        bubbleChart)"
proof -
  obtain st where st:
    "chart (\<lambda>s. s = ''body'') sample_draws ''body'' (JArr sample_data) bubbleChart = Inr st"
    "length (nodes st) = 2"
    using chart_sample by blast
  have ok: "main (\<lambda>url. Inr ''[...]'') (\<lambda>res. Inr (JArr sample_data))
              (\<lambda>s. s = ''body'') sample_draws
            = ([Fetch ''./data/data.json'', Json, Chart ''body'' (JArr sample_data)], st)"
    using st(1)
      main_outcomes [where fetch = "\<lambda>url. Inr ''[...]''" and res = "''[...]''"
        and json = "\<lambda>res. Inr (JArr sample_data)" and data = "JArr sample_data"
        and doc = "\<lambda>s. s = ''body''" and rnd = sample_draws and st = st]
    by simp
  have thrown: "main (\<lambda>url. Inr ''null'') (\<lambda>res. Inr JNull) (\<lambda>s. s = ''body'') sample_draws
     = ([Fetch ''./data/data.json'', Json, Chart ''body'' JNull, ConsoleError TypeError],
        bubbleChart)"
    using chart_null [of "\<lambda>s. s = ''body''" sample_draws "''body''" bubbleChart]
      main_outcomes [where fetch = "\<lambda>url. Inr ''null''" and res = "''null''"
        and json = "\<lambda>res. Inr JNull" and data = JNull and err = TypeError
        and doc = "\<lambda>s. s = ''body''" and rnd = sample_draws]
    by simp
  have rejected: "main (\<lambda>url. Inl (Rejected ''offline'')) (\<lambda>res::string. Inr JNull)
       (\<lambda>s. s = ''body'') sample_draws
     = ([Fetch ''./data/data.json'', ConsoleError (Rejected ''offline'')], bubbleChart)"
    using main_outcomes [where fetch = "\<lambda>url. Inl (Rejected ''offline'')"
        and err = "Rejected ''offline''" and json = "\<lambda>res::string. Inr JNull"
        and doc = "\<lambda>s. s = ''body''" and rnd = sample_draws]
    by simp
  have undecoded: "main (\<lambda>url. Inr ''<html>'') (\<lambda>res. Inl SyntaxError)
       (\<lambda>s. s = ''body'') sample_draws
     = ([Fetch ''./data/data.json'', Json, ConsoleError SyntaxError], bubbleChart)"
    using main_outcomes [where fetch = "\<lambda>url. Inr ''<html>''" and res = "''<html>''"
        and json = "\<lambda>res. Inl SyntaxError" and err = SyntaxError
        and doc = "\<lambda>s. s = ''body''" and rnd = sample_draws]
    by simp
  have called: "chart_calls (fst (main (\<lambda>url. Inr ''[...]'') (\<lambda>res. Inr (JArr sample_data))
                          (\<lambda>s. s = ''body'') sample_draws))
     = [(''body'', JArr sample_data)]"
    using ok by simp
  from rejected undecoded called st ok thrown show ?thesis by blast
qed

end
